theory Spec2Isabelle
  imports Complex_Main "HOL-Library.Word"
begin

section \<open>JavaScript strings\<close>

text \<open>
  A JavaScript string is a sequence of UTF-16 code units. String literals of the source
  are written with \<open>lit\<close>. A string is truthy exactly when it is not empty.
\<close>

type_synonym jschar = "16 word"
type_synonym jsstring = "jschar list"

definition lit :: "string \<Rightarrow> jsstring" where
  "lit cs = map (\<lambda>c. of_nat (of_char c)) cs"

text \<open>
  \<open>String.prototype.trim\<close> removes the ECMAScript WhiteSpace and LineTerminator code
  points from both ends. All of them lie in the basic plane, so the test is on one code unit.
\<close>

definition isWhiteSpace :: "jschar \<Rightarrow> bool" where
  "isWhiteSpace c \<longleftrightarrow>
     c \<in> {0x9, 0xA, 0xB, 0xC, 0xD, 0x20, 0xA0, 0x1680,
          0x2028, 0x2029, 0x202F, 0x205F, 0x3000, 0xFEFF}
     \<or> (0x2000 \<le> c \<and> c \<le> 0x200A)"

definition trim :: "jsstring \<Rightarrow> jsstring" where
  "trim s = rev (dropWhile isWhiteSpace (rev (dropWhile isWhiteSpace s)))"

text \<open>\<open>Date.now().toString()\<close>: the decimal digits of a non-negative integer.\<close>

fun toString :: "nat \<Rightarrow> jsstring" where
  "toString n =
     (if n < 10 then [of_nat (48 + n)]
      else toString (n div 10) @ [of_nat (48 + n mod 10)])"

declare toString.simps [simp del]

text \<open>\<open>xs.slice(-k)\<close>: the last \<open>k\<close> elements, or all of them when there are fewer.\<close>

definition slice_from_end :: "nat \<Rightarrow> 'a list \<Rightarrow> 'a list" where
  "slice_from_end k xs = drop (if k \<le> length xs then length xs - k else 0) xs"


section \<open>Data of the component\<close>

datatype msg_role = User | Assistant

text \<open>
  A Message. \<open>id\<close> and \<open>timestamp\<close> are both read from the clock when the message is
  built; the model takes one instant (milliseconds) for the two reads.
\<close>

record message =
  msg_id :: jsstring
  content :: jsstring
  role :: msg_role
  timestamp :: nat

record feedback =
  summary :: jsstring
  strengths :: "jsstring list"
  improvements :: "jsstring list"

text \<open>
  The \<open>details\<close> prop is untyped in the source; the fields the component reads are
  modelled, an absent text field as the empty (falsy) string.
\<close>

record details =
  details_role :: jsstring
  details_company :: jsstring
  details_experience :: jsstring
  details_specificSkills :: jsstring
  details_focusAreas :: "jsstring list option"

record props =
  topic :: jsstring
  sessionType :: jsstring
  details :: details
  notes_prop :: jsstring

text \<open>The object kept under the key \<open>interviewSession\<close> of the browser's sessionStorage.\<close>

record session_data =
  sd_id :: jsstring
  sd_topic :: jsstring
  sd_type :: jsstring
  sd_startTime :: nat

datatype recorder_state = Inactive | Recording | Paused

text \<open>
  The state of the component. The first group are the \<open>useState\<close> variables: a handler
  reads them from the render it was created in and writes them through the setters. The
  second group lives outside React (refs, the MediaRecorder object, sessionStorage) and is
  always read at its current value.

  \<open>audioRecorder\<close> is \<open>True\<close> when the state variable holds a MediaRecorder (it is
  \<open>null\<close> otherwise). The state variables \<open>audioChunks\<close> and \<open>speechRecognition\<close>
  are never read by the source and are left out.
\<close>

record state =
  messages :: "message list"
  isListening :: bool
  userInput :: jsstring
  isLoading :: bool
  isThinking :: bool
  isSpeaking :: bool
  isConnected :: bool
  transcript :: jsstring
  audioRecorder :: bool
  isEndingInterview :: bool
  interviewTime :: nat
  liveTranscript :: jsstring
  speechRate :: real
  audioChunksRef :: "nat list"
  timerRef :: bool
  recognitionRef :: bool
  recorderState :: recorder_state
  sessionStorage :: "session_data option"

text \<open>The initial values given to \<open>useState\<close> and \<open>useRef\<close>, with an empty sessionStorage.\<close>

definition initialState :: state where
  "initialState =
     \<lparr>messages = [], isListening = False, userInput = [], isLoading = False,
      isThinking = False, isSpeaking = False, isConnected = False, transcript = [],
      audioRecorder = False, isEndingInterview = False, interviewTime = 0,
      liveTranscript = [], speechRate = 1, audioChunksRef = [], timerRef = False,
      recognitionRef = False, recorderState = Inactive, sessionStorage = None\<rparr>"

text \<open>
  What a handler does to the world outside the component state. A handler of the source
  is modelled as a function from the state to the new state and the list of the effects it
  issued, in order. An \<open>async\<close> handler is cut at each \<open>await\<close> whose result decides
  what follows: the part before the \<open>await\<close> keeps the source name, the parts after it are
  named \<open>_resolved\<close> and \<open>_rejected\<close>.
\<close>

datatype timeout_callback =
    StartInterview
  | SpeakIntroduction jsstring
  | PlayResponse jsstring

datatype effect =
    Alert jsstring
  | Throw jsstring
  | GetUserMedia
  | SetTimeout timeout_callback nat
  | FetchCreateInterview jsstring jsstring jsstring
  | FetchSaveMessage jsstring jsstring msg_role
  | FetchSaveFeedback jsstring feedback
  | FetchAi "message list" jsstring jsstring jsstring details
  | GenerateInterviewResponse "(msg_role \<times> jsstring) list" jsstring
  | GenerateInterviewFeedback "(msg_role \<times> jsstring) list" jsstring jsstring
  | TranscribeAudio "nat list"
  | OnEnd feedback
  | ForceVoiceInit
  | SynthCancel
  | SynthSpeak jsstring real
  | SynthResume
  | StopSpeech
  | RecorderStart
  | RecorderStop
  | RecognitionStart
  | RecognitionStop
  | ClearInterval


section \<open>The handlers\<close>

text \<open>
  Every handler takes two states: \<open>c\<close>, the state of the render whose closure the
  handler is (the values its free state variables have), and \<open>s\<close>, the current state, to
  which the setters and the functional updates \<open>setX(prev => ...)\<close> apply. For a
  handler run from a click or a key press of the current render the two are the same state.
  \<open>now\<close> is the value of the clock, in milliseconds.
\<close>

subsection \<open>Connecting\<close>

definition setupAudioRecording_catch :: "state \<Rightarrow> state \<times> effect list" where
  "setupAudioRecording_catch s =
     (s\<lparr>isConnected := True\<rparr>,
      [Alert (lit ''Could not access microphone. Voice input will not be available.''),
       SetTimeout StartInterview 1000])"

text \<open>
  \<open>mediaDevices\<close> tells whether \<open>navigator.mediaDevices\<close> exists; when it does the
  handler waits for \<open>getUserMedia\<close>.
\<close>

definition setupAudioRecording :: "bool \<Rightarrow> state \<Rightarrow> state \<times> effect list" where
  "setupAudioRecording mediaDevices s =
     (if \<not> mediaDevices then setupAudioRecording_catch s else (s, [GetUserMedia]))"

text \<open>
  The microphone stream arrived; \<open>recorderCreated\<close> is \<open>False\<close> when
  \<open>new MediaRecorder(stream)\<close> throws.
\<close>

definition setupAudioRecording_resolved :: "bool \<Rightarrow> state \<Rightarrow> state \<times> effect list" where
  "setupAudioRecording_resolved recorderCreated s =
     (if recorderCreated
      then (s\<lparr>audioRecorder := True, recorderState := Inactive, isConnected := True\<rparr>,
            [SetTimeout StartInterview 1000])
      else setupAudioRecording_catch s)"

definition setupAudioRecording_rejected :: "state \<Rightarrow> state \<times> effect list" where
  "setupAudioRecording_rejected s = setupAudioRecording_catch s"

definition orElse :: "jsstring \<Rightarrow> jsstring \<Rightarrow> jsstring" where
  "orElse a b = (if a \<noteq> [] then a else b)"

definition introMessage :: "props \<Rightarrow> jsstring" where
  "introMessage p =
     (if sessionType p = lit ''topic'' then
        lit ''Welcome to your lecture on '' @ topic p
        @ lit ''. I'll start with an overview and then we'll dive into the details. Feel free to ask questions at any point.''
      else if sessionType p = lit ''qa'' then
        lit ''Welcome to your Q&A session on '' @ topic p
        @ lit ''. I'll be testing your knowledge with a series of questions. Let's see how much you know about ''
        @ topic p @ lit ''!''
      else if sessionType p = lit ''language'' then
        lit ''Bonjour! Welcome to your language practice session. Today we'll be practicing ''
        @ topic p
        @ lit ''. I'll speak in the language we're practicing, and you can respond to improve your skills.''
      else if sessionType p = lit ''mock'' then
        (let role = orElse (details_role (details p)) (topic p);
             company = orElse (details_company (details p)) (lit ''a company'');
             experience = orElse (details_experience (details p)) (lit ''this role'');
             specificSkills = orElse (details_specificSkills (details p)) []
         in lit ''Welcome to your mock interview for the '' @ role @ lit '' position at ''
            @ company
            @ lit ''. I'll be your interviewer today. I'll ask you questions related to ''
            @ topic p @ lit '' and your experience with '' @ experience @ lit ''.''
            @ (if specificSkills \<noteq> []
               then lit '' I'll focus particularly on your skills with '' @ specificSkills @ lit ''.''
               else [])
            @ lit '' Let's begin!'')
      else
        lit ''Great! Let's start our interview about '' @ topic p
        @ lit ''. I'll ask you some questions about '' @ topic p
        @ lit '' and you can respond either by speaking or typing your answers.'')"

text \<open>
  \<open>startInterview\<close> up to the \<open>await\<close> of the create-interview request. The session data
  with the locally generated id is stored \<^emph>\<open>before\<close> the request is sent.
\<close>

definition localSessionData :: "props \<Rightarrow> nat \<Rightarrow> session_data" where
  "localSessionData p now =
     \<lparr>sd_id = toString now, sd_topic = topic p, sd_type = sessionType p, sd_startTime = now\<rparr>"

definition startInterview :: "props \<Rightarrow> nat \<Rightarrow> state \<Rightarrow> state \<times> effect list" where
  "startInterview p now s =
     (let introMsg = \<lparr>msg_id = toString now, content = introMessage p, role = Assistant,
                      timestamp = now\<rparr>
      in (s\<lparr>isLoading := True,
            sessionStorage := Some (localSessionData p now),
            messages := messages s @ [introMsg]\<rparr>,
          [FetchCreateInterview (topic p) (sessionType p) (notes_prop p)]))"

text \<open>
  What the create-interview request came to: the request or the reading of its body failed,
  the response was not ok, or it was ok with the \<open>id\<close> field of its body (\<open>None\<close> when
  the body has none).
\<close>

datatype create_outcome = CreateFailed | CreateNotOk | CreateOk "jsstring option"

definition serverId :: "create_outcome \<Rightarrow> jsstring option" where
  "serverId out =
     (case out of
        CreateOk (Some i) \<Rightarrow> (if i \<noteq> [] then Some i else None)
      | _ \<Rightarrow> None)"

text \<open>
  \<open>startInterview\<close> after the request: \<open>sessionData\<close> is the local object built before
  it. Only a truthy \<open>data.id\<close> replaces the local id and is written back to the storage.
\<close>

definition startInterview_resumed ::
    "props \<Rightarrow> session_data \<Rightarrow> create_outcome \<Rightarrow> state \<Rightarrow> state \<times> effect list" where
  "startInterview_resumed p sessionData out s =
     (let s1 = (case serverId out of
                  Some i \<Rightarrow> s\<lparr>sessionStorage := Some (sessionData\<lparr>sd_id := i\<rparr>)\<rparr>
                | None \<Rightarrow> s)
      in (s1\<lparr>isLoading := False\<rparr>, [SetTimeout (SpeakIntroduction (introMessage p)) 800]))"

text \<open>
  The callback that speaks the introduction, after \<open>forceVoiceInit\<close>; \<open>ok\<close> is \<open>False\<close>
  when something in its \<open>try\<close> block throws. The end of the utterance, or an error of it,
  clears the speaking flag.
\<close>

definition speakIntroduction :: "state \<Rightarrow> jsstring \<Rightarrow> bool \<Rightarrow> state \<Rightarrow> state \<times> effect list" where
  "speakIntroduction c text ok s =
     (if ok then (s\<lparr>isSpeaking := True\<rparr>, [ForceVoiceInit, SynthSpeak text (speechRate c), SynthResume])
      else (s\<lparr>isSpeaking := False\<rparr>, [ForceVoiceInit]))"

definition utterance_onend :: "state \<Rightarrow> state" where
  "utterance_onend s = s\<lparr>isSpeaking := False\<rparr>"

subsection \<open>Speaking\<close>

definition playAudioResponse :: "state \<Rightarrow> jsstring \<Rightarrow> state \<Rightarrow> state \<times> effect list" where
  "playAudioResponse c text s =
     (if text = [] \<or> \<not> isConnected c then (s, [])
      else (s\<lparr>isSpeaking := True\<rparr>, [ForceVoiceInit]))"

definition playAudioResponse_resumed :: "state \<Rightarrow> jsstring \<Rightarrow> bool \<Rightarrow> state \<Rightarrow> state \<times> effect list" where
  "playAudioResponse_resumed c text ok s =
     (if ok then (s, [SynthCancel, SynthSpeak text (speechRate c), SynthResume])
      else (s\<lparr>isSpeaking := False\<rparr>, []))"

text \<open>\<open>synthesis\<close> tells whether \<open>window.speechSynthesis\<close> exists.\<close>

definition stopSpeaking :: "bool \<Rightarrow> state \<Rightarrow> state \<Rightarrow> state \<times> effect list" where
  "stopSpeaking synthesis c s =
     (if synthesis \<and> isSpeaking c then (s\<lparr>isSpeaking := False\<rparr>, [StopSpeech]) else (s, []))"

subsection \<open>Capturing\<close>

definition handleDataAvailable :: "nat \<Rightarrow> state \<Rightarrow> state" where
  "handleDataAvailable dataSize s =
     (if dataSize > 0 then s\<lparr>audioChunksRef := audioChunksRef s @ [dataSize]\<rparr> else s)"

text \<open>
  \<open>MediaRecorder.start\<close> throws when the recorder is not inactive; the state updates made
  before the call stay.
\<close>

definition startListening :: "state \<Rightarrow> state \<Rightarrow> state \<times> effect list" where
  "startListening c s =
     (if \<not> audioRecorder c then
        (s, [Alert (lit ''Microphone is not available. Please try again or use text input.'')])
      else if isSpeaking c then (s, [])
      else
        (let s1 = s\<lparr>isListening := True, transcript := [], liveTranscript := [],
                    audioChunksRef := []\<rparr>;
             rec = (if recognitionRef s then [RecognitionStart] else [])
         in if recorderState s = Inactive
            then (s1\<lparr>recorderState := Recording\<rparr>, rec @ [RecorderStart])
            else (s1, rec @ [Throw (lit ''InvalidStateError'')])))"

definition stopListening :: "state \<Rightarrow> state \<Rightarrow> state \<times> effect list" where
  "stopListening c s =
     (let stop = (audioRecorder c \<and> recorderState s = Recording)
      in (s\<lparr>recorderState := (if stop then Inactive else recorderState s),
            isListening := False\<rparr>,
          (if recognitionRef s then [RecognitionStop] else [])
          @ (if stop then [RecorderStop] else [])))"

text \<open>
  The \<open>onresult\<close> callback of the recognizer, given the concatenated final and interim
  texts of the event.
\<close>

definition recognition_onresult :: "jsstring \<Rightarrow> jsstring \<Rightarrow> state \<Rightarrow> state" where
  "recognition_onresult finalTranscript interimTranscript s =
     (if finalTranscript \<noteq> [] then s\<lparr>liveTranscript := finalTranscript\<rparr>
      else if interimTranscript \<noteq> [] then s\<lparr>liveTranscript := interimTranscript\<rparr>
      else s)"


subsection \<open>Submitting a message\<close>

text \<open>
  The text \<open>handleSendMessage\<close> sends: the live transcript when it is truthy, else the
  argument \<open>transcribedText\<close> when it is given and truthy, else the typed input.
\<close>

definition textToSend :: "state \<Rightarrow> jsstring option \<Rightarrow> jsstring" where
  "textToSend c transcribedText =
     (if liveTranscript c \<noteq> [] then liveTranscript c
      else (case transcribedText of
              Some t \<Rightarrow> (if t \<noteq> [] then t else userInput c)
            | None \<Rightarrow> userInput c))"

text \<open>\<open>sessionData?.id\<close> of the parsed storage entry, when it is truthy.\<close>

definition storedId :: "session_data option \<Rightarrow> jsstring option" where
  "storedId sessionData =
     (case sessionData of
        Some d \<Rightarrow> (if sd_id d \<noteq> [] then Some (sd_id d) else None)
      | None \<Rightarrow> None)"

definition saveMessage :: "session_data option \<Rightarrow> jsstring \<Rightarrow> msg_role \<Rightarrow> effect list" where
  "saveMessage sessionData text r =
     (case storedId sessionData of
        Some i \<Rightarrow> [FetchSaveMessage i text r]
      | None \<Rightarrow> [])"

text \<open>
  \<open>handleSendMessage\<close> up to the \<open>await\<close> of \<open>generateInterviewResponse\<close>, a function
  of \<open>lib/client-ai\<close>. The history handed to it is the whole list \<open>messages\<close> of the
  closure with the new user message added. Its second argument, an instruction text built
  from the session type, the details and the notes, is not represented.
\<close>

definition handleSendMessage ::
    "props \<Rightarrow> state \<Rightarrow> jsstring option \<Rightarrow> nat \<Rightarrow> state \<Rightarrow> state \<times> effect list" where
  "handleSendMessage p c transcribedText now s =
     (let text = textToSend c transcribedText in
      if trim text = [] then (s, [])
      else
        (let newUserMessage = \<lparr>msg_id = toString now, content = trim text, role = User,
                                timestamp = now\<rparr>;
             s1 = s\<lparr>messages := messages s @ [newUserMessage], userInput := [],
                    transcript := [], liveTranscript := [], isLoading := True\<rparr>;
             sessionData = sessionStorage s;
             aiMessages = map (\<lambda>m. (role m, content m)) (messages c)
                          @ [(User, content newUserMessage)]
         in (s1\<lparr>isThinking := True\<rparr>,
             saveMessage sessionData (content newUserMessage) User
             @ [GenerateInterviewResponse aiMessages (topic p)])))"

text \<open>The reply arrived; \<open>sessionData\<close> is the entry read before the \<open>await\<close>.\<close>

definition handleSendMessage_resolved ::
    "session_data option \<Rightarrow> jsstring \<Rightarrow> nat \<Rightarrow> state \<Rightarrow> state \<times> effect list" where
  "handleSendMessage_resolved sessionData aiResponseText now s =
     (let aiResponse = \<lparr>msg_id = toString now, content = aiResponseText, role = Assistant,
                         timestamp = now\<rparr>
      in (s\<lparr>messages := messages s @ [aiResponse], isThinking := False, isLoading := False\<rparr>,
          saveMessage sessionData aiResponseText Assistant
          @ [SetTimeout (PlayResponse aiResponseText) 500]))"

text \<open>The \<open>catch\<close> block: \<open>generateInterviewResponse\<close> threw or its promise was rejected.\<close>

definition handleSendMessage_rejected :: "nat \<Rightarrow> state \<Rightarrow> state \<times> effect list" where
  "handleSendMessage_rejected now s =
     (let errorMessage =
            \<lparr>msg_id = toString now,
             content = lit ''I'm sorry, I'm having trouble responding right now. Let's continue our conversation.'',
             role = Assistant, timestamp = now\<rparr>
      in (s\<lparr>messages := messages s @ [errorMessage], isThinking := False, isLoading := False\<rparr>,
          []))"

text \<open>
  The callback of the 500 ms timer set after a reply; \<open>synthSpeaking\<close> is
  \<open>window.speechSynthesis && window.speechSynthesis.speaking\<close>.
\<close>

definition playResponse_timeout ::
    "bool \<Rightarrow> state \<Rightarrow> jsstring \<Rightarrow> state \<Rightarrow> state \<times> effect list" where
  "playResponse_timeout synthSpeaking c text s =
     (let (s', es) = playAudioResponse c text s
      in (s', (if synthSpeaking then [SynthCancel] else []) @ es))"

definition handleKeyPress ::
    "props \<Rightarrow> state \<Rightarrow> bool \<Rightarrow> bool \<Rightarrow> nat \<Rightarrow> state \<Rightarrow> state \<times> effect list" where
  "handleKeyPress p c enterKey shiftKey now s =
     (if enterKey \<and> \<not> shiftKey then handleSendMessage p c None now s else (s, []))"

text \<open>
  The \<open>stop\<close> listener of the recorder, up to the \<open>await\<close> of \<open>transcribeAudio\<close> (a
  function of \<open>lib/voice\<close>), and after it with the text it returned. The listener submits
  only a truthy transcription; the calls of \<open>setUserInput\<close> and \<open>setTranscript\<close> come
  before the call of \<open>handleSendMessage\<close>.
\<close>

definition handleRecordingStop :: "state \<Rightarrow> state \<times> effect list" where
  "handleRecordingStop s =
     (s\<lparr>audioChunksRef := [], isLoading := True\<rparr>, [TranscribeAudio (audioChunksRef s)])"

definition handleRecordingStop_resolved ::
    "props \<Rightarrow> state \<Rightarrow> jsstring \<Rightarrow> nat \<Rightarrow> state \<Rightarrow> state \<times> effect list" where
  "handleRecordingStop_resolved p c transcription now s =
     (let s1 = s\<lparr>isLoading := False\<rparr> in
      if transcription \<noteq> []
      then handleSendMessage p c (Some transcription) now
             (s1\<lparr>userInput := transcription, transcript := transcription\<rparr>)
      else (s1\<lparr>userInput := []\<rparr>, []))"

definition handleRecordingStop_rejected :: "state \<Rightarrow> state \<times> effect list" where
  "handleRecordingStop_rejected s =
     (s\<lparr>isLoading := False\<rparr>,
      [Alert (lit ''There was an error processing your speech. Please try again or use text input.'')])"

subsection \<open>Ending the session\<close>

definition fallbackFeedback :: "props \<Rightarrow> feedback" where
  "fallbackFeedback p =
     \<lparr>summary = lit ''You participated in this '' @ sessionType p @ lit '' about ''
                 @ topic p @ lit ''.'',
      strengths = [lit ''Engaged in the '' @ sessionType p,
                   lit ''Provided responses to questions'',
                   lit ''Completed the session''],
      improvements = [lit ''Technical issues prevented detailed feedback'',
                      lit ''Try another session with a different connection'',
                      lit ''Consider trying a different topic'']\<rparr>"

definition saveFeedback :: "session_data option \<Rightarrow> feedback \<Rightarrow> effect list" where
  "saveFeedback sessionData fb =
     (case storedId sessionData of
        Some i \<Rightarrow> [FetchSaveFeedback i fb]
      | None \<Rightarrow> [])"

text \<open>
  \<open>handleEndInterview\<close> up to the \<open>await\<close> of \<open>generateInterviewFeedback\<close>.
  \<open>synth\<close> is \<open>window.speechSynthesis\<close>: \<open>None\<close> when the browser has none, else its
  \<open>speaking\<close> flag. The handler reads \<open>window.speechSynthesis.speaking\<close> outside any
  \<open>try\<close>, after it has set the ending flag.
\<close>

definition handleEndInterview ::
    "props \<Rightarrow> bool option \<Rightarrow> state \<Rightarrow> state \<Rightarrow> state \<times> effect list" where
  "handleEndInterview p synth c s =
     (if isEndingInterview c then (s, [])
      else
        (let s1 = s\<lparr>isEndingInterview := True\<rparr> in
         case synth of
           None \<Rightarrow> (s1, [Throw (lit ''TypeError'')])
         | Some speaking \<Rightarrow>
             (let stop = (audioRecorder c \<and> recorderState s = Recording);
                  aiMessages = map (\<lambda>m. (role m, content m)) (messages c)
              in (s1\<lparr>recorderState := (if stop then Inactive else recorderState s),
                     isThinking := True\<rparr>,
                  (if speaking then [SynthCancel] else [])
                  @ (if stop then [RecorderStop] else [])
                  @ (if timerRef s then [ClearInterval] else [])
                  @ [GenerateInterviewFeedback aiMessages (sessionType p) (topic p)]))))"

text \<open>
  After the \<open>await\<close>: the feedback is saved when the storage holds an id (the result of
  that request is ignored), the caller's \<open>onEnd\<close> is called, and the \<open>finally\<close> block
  clears the thinking and the ending flags.
\<close>

definition handleEndInterview_finish :: "feedback \<Rightarrow> state \<Rightarrow> state \<times> effect list" where
  "handleEndInterview_finish fb s =
     (s\<lparr>isThinking := False, isEndingInterview := False\<rparr>,
      saveFeedback (sessionStorage s) fb @ [OnEnd fb])"

definition handleEndInterview_resolved :: "feedback \<Rightarrow> state \<Rightarrow> state \<times> effect list" where
  "handleEndInterview_resolved fb s = handleEndInterview_finish fb s"

definition handleEndInterview_rejected :: "props \<Rightarrow> state \<Rightarrow> state \<times> effect list" where
  "handleEndInterview_rejected p s = handleEndInterview_finish (fallbackFeedback p) s"

subsection \<open>The request to the AI route\<close>

definition sendToAI :: "props \<Rightarrow> message list \<Rightarrow> effect list" where
  "sendToAI p userMessages =
     (let recentMessages = slice_from_end 15 userMessages
      in [FetchAi recentMessages (sessionType p) (topic p) (notes_prop p) (details p)])"

text \<open>The answer: \<open>data.response\<close> of an ok response, the fixed text on any failure.\<close>

definition sendToAI_resumed :: "jsstring option \<Rightarrow> jsstring" where
  "sendToAI_resumed response =
     (case response of
        Some r \<Rightarrow> r
      | None \<Rightarrow> lit ''I apologize, but I'm experiencing technical difficulties. Let's try again.'')"

subsection \<open>What the rendered controls allow\<close>

text \<open>
  The \<open>disabled\<close> attributes of the text area, of the microphone button and of the end
  buttons, as the JSX computes them. A disabled control delivers no key press and no click.
\<close>

definition textarea_disabled :: "state \<Rightarrow> bool" where
  "textarea_disabled s \<longleftrightarrow> isLoading s \<or> isListening s \<or> isSpeaking s"

definition mic_button_disabled :: "state \<Rightarrow> bool" where
  "mic_button_disabled s \<longleftrightarrow> isLoading s \<or> \<not> audioRecorder s \<or> isSpeaking s"

definition end_button_disabled :: "state \<Rightarrow> bool" where
  "end_button_disabled s \<longleftrightarrow> isEndingInterview s \<or> \<not> isConnected s"

subsection \<open>Runs of end requests\<close>

text \<open>
  A run of the events that concern the end of the session: a trigger of the end action on
  the current render, and the answer to a pending feedback request. The configuration is
  the state, the number of feedback requests still unanswered, and the effects so far.
\<close>

datatype end_event = EndClick | FeedbackResolved feedback | FeedbackRejected

fun isFeedbackRequest :: "effect \<Rightarrow> bool" where
  "isFeedbackRequest (GenerateInterviewFeedback ms st tp) = True"
| "isFeedbackRequest e = False"

fun isOnEnd :: "effect \<Rightarrow> bool" where
  "isOnEnd (OnEnd fb) = True"
| "isOnEnd e = False"

definition onEndCalls :: "effect list \<Rightarrow> nat" where
  "onEndCalls es = length (filter isOnEnd es)"

definition feedbackRequests :: "effect list \<Rightarrow> nat" where
  "feedbackRequests es = length (filter isFeedbackRequest es)"

fun end_step ::
    "props \<Rightarrow> bool option \<Rightarrow> state \<times> nat \<times> effect list \<Rightarrow> end_event
      \<Rightarrow> state \<times> nat \<times> effect list" where
  "end_step p synth (s, pending, issued) EndClick =
     (let (s', es) = handleEndInterview p synth s s
      in (s', pending + length (filter isFeedbackRequest es), issued @ es))"
| "end_step p synth (s, pending, issued) (FeedbackResolved fb) =
     (if pending = 0 then (s, pending, issued)
      else (let (s', es) = handleEndInterview_resolved fb s
            in (s', pending - 1, issued @ es)))"
| "end_step p synth (s, pending, issued) FeedbackRejected =
     (if pending = 0 then (s, pending, issued)
      else (let (s', es) = handleEndInterview_rejected p s
            in (s', pending - 1, issued @ es)))"

definition end_run ::
    "props \<Rightarrow> bool option \<Rightarrow> end_event list \<Rightarrow> state \<Rightarrow> state \<times> nat \<times> effect list" where
  "end_run p synth evs s = foldl (end_step p synth) (s, 0, []) evs"


subsection \<open>The reply gateway\<close>

text \<open>
  Modelled from the spec: \<open>generateInterviewResponse\<close> of \<open>lib/client-ai\<close>, which
  \<open>handleSendMessage\<close> calls for a reply, is not among the sources. Section 4.4 of the
  specification says of this operation that it "sends the most recent bounded window of
  history (recommended cap: last 15 messages)". The definition gives the messages of the
  request it sends for the history it is handed.
\<close>

definition generateInterviewResponse_request ::
    "(msg_role \<times> jsstring) list \<Rightarrow> (msg_role \<times> jsstring) list" where
  "generateInterviewResponse_request history = slice_from_end 15 history"

subsection \<open>Inputs used in the examples\<close>

definition exampleProps :: props where
  "exampleProps =
     \<lparr>topic = lit ''Graphs'', sessionType = lit ''qa'',
      details = \<lparr>details_role = [], details_company = [], details_experience = [],
                 details_specificSkills = [], details_focusAreas = None\<rparr>,
      notes_prop = []\<rparr>"

definition connectedState :: state where
  "connectedState = initialState\<lparr>isConnected := True\<rparr>"

definition speakingState :: state where
  "speakingState = connectedState\<lparr>isSpeaking := True, userInput := lit ''hi''\<rparr>"

definition awaitingState :: state where
  "awaitingState = connectedState\<lparr>isLoading := True, isThinking := True\<rparr>"

definition typedState :: state where
  "typedState = connectedState\<lparr>audioRecorder := True, userInput := lit ''typed answer''\<rparr>"

text \<open>
  The state after \<open>startInterview\<close> has run at the instant 1700000000000 and its
  create-interview request has failed.
\<close>

definition localIdState :: state where
  "localIdState =
     fst (startInterview_resumed exampleProps (localSessionData exampleProps 1700000000000)
            CreateFailed
            (fst (startInterview exampleProps 1700000000000 connectedState)))"


section \<open>Properties of the string functions\<close>

lemma trim_eq_Nil_iff: "trim s = [] \<longleftrightarrow> (\<forall>ch\<in>set s. isWhiteSpace ch)"
proof
  assume "trim s = []"
  then have "\<forall>x\<in>set (dropWhile isWhiteSpace s). isWhiteSpace x"
    by (simp add: trim_def dropWhile_eq_Nil_conv)
  then have "dropWhile isWhiteSpace s = []"
    using hd_dropWhile [of isWhiteSpace s] hd_in_set [of "dropWhile isWhiteSpace s"] by blast
  then show "\<forall>ch\<in>set s. isWhiteSpace ch"
    by (simp add: dropWhile_eq_Nil_conv)
next
  assume "\<forall>ch\<in>set s. isWhiteSpace ch"
  then show "trim s = []" by (auto simp: trim_def dest: set_dropWhileD)
qed

lemma trim_last:
  assumes "trim s \<noteq> []"
  shows "\<not> isWhiteSpace (last (trim s))"
proof -
  let ?zs = "dropWhile isWhiteSpace (rev (dropWhile isWhiteSpace s))"
  from assms have ne: "?zs \<noteq> []" by (simp add: trim_def)
  then have "\<not> isWhiteSpace (hd ?zs)" by (rule hd_dropWhile)
  moreover have "last (trim s) = hd ?zs" using ne by (simp add: trim_def last_rev)
  ultimately show ?thesis by simp
qed

lemma trim_hd:
  assumes "trim s \<noteq> []"
  shows "\<not> isWhiteSpace (hd (trim s))"
proof -
  let ?ys = "dropWhile isWhiteSpace s"
  let ?zs = "dropWhile isWhiteSpace (rev ?ys)"
  from assms have ne: "?zs \<noteq> []" by (simp add: trim_def)
  then have ys_ne: "?ys \<noteq> []" by (cases "?ys") simp_all
  have "rev ?ys = takeWhile isWhiteSpace (rev ?ys) @ ?zs" by simp
  then have "?ys = rev ?zs @ rev (takeWhile isWhiteSpace (rev ?ys))"
    by (metis rev_append rev_rev_ident)
  then have "hd ?ys = hd (rev ?zs)" using ne by (metis hd_append2 rev_is_Nil_conv)
  moreover have "\<not> isWhiteSpace (hd ?ys)" using ys_ne by (rule hd_dropWhile)
  ultimately show ?thesis by (simp add: trim_def)
qed

lemma toString_not_Nil: "toString n \<noteq> []"
  by (subst toString.simps) simp

lemma toString_digit: "n < 10 \<Longrightarrow> toString n = [of_nat (48 + n)]"
  by (subst toString.simps) simp

lemma toString_more:
  "\<not> n < 10 \<Longrightarrow> toString n = toString (n div 10) @ [of_nat (48 + n mod 10)]"
  by (subst toString.simps) simp


lemma slice_from_end_length: "length (slice_from_end k xs) = min k (length xs)"
  by (simp add: slice_from_end_def)

lemma slice_from_end_suffix: "\<exists>older. xs = older @ slice_from_end k xs"
proof
  show "xs = take (if k \<le> length xs then length xs - k else 0) xs @ slice_from_end k xs"
    by (simp add: slice_from_end_def)
qed


section \<open>Submitting a message\<close>

text \<open>
  Claim C6. A submission whose text is empty or consists of white space only does nothing:
  \<open>handleSendMessage\<close> returns before its first setter call, so the state is the one it
  was called in (no Message is added, no state variable changes) and no effect is issued
  (no request leaves the component). The text of a submission is the one the handler
  selects, \<open>textToSend\<close>.
\<close>

theorem handleSendMessage_blank_noop:
  assumes "\<forall>ch\<in>set (textToSend c transcribedText). isWhiteSpace ch"
  shows "handleSendMessage p c transcribedText now s = (s, [])"
  using assms by (simp add: handleSendMessage_def trim_eq_Nil_iff)

theorem handleSendMessage_blank_noop_witness:
  "textToSend (initialState\<lparr>userInput := lit ''  ''\<rparr>) None = lit ''  ''
   \<and> handleSendMessage exampleProps (initialState\<lparr>userInput := lit ''  ''\<rparr>) None 5
        (initialState\<lparr>userInput := lit ''  ''\<rparr>)
      = (initialState\<lparr>userInput := lit ''  ''\<rparr>, [])"
proof -
  have t: "textToSend (initialState\<lparr>userInput := lit ''  ''\<rparr>) None = lit ''  ''"
    by (simp add: textToSend_def initialState_def)
  have h: "\<forall>ch\<in>set (textToSend (initialState\<lparr>userInput := lit ''  ''\<rparr>) None). isWhiteSpace ch"
    unfolding t by (simp add: lit_def isWhiteSpace_def)
  show ?thesis using t handleSendMessage_blank_noop [OF h] by simp
qed

text \<open>
  Claim C10. A submission whose text is not blank adds exactly one Message at the end of
  the conversation: its role is user and its content is the trimmed text, which is
  therefore not empty and neither starts nor ends with a white space character. After the
  call the typed input, the transcript and the live transcript are all empty.
\<close>

theorem handleSendMessage_appends_trimmed:
  assumes "trim (textToSend c transcribedText) \<noteq> []"
  shows "messages (fst (handleSendMessage p c transcribedText now s))
           = messages s @ [\<lparr>msg_id = toString now, content = trim (textToSend c transcribedText),
                            role = User, timestamp = now\<rparr>]
         \<and> \<not> isWhiteSpace (hd (trim (textToSend c transcribedText)))
         \<and> \<not> isWhiteSpace (last (trim (textToSend c transcribedText)))
         \<and> userInput (fst (handleSendMessage p c transcribedText now s)) = []
         \<and> transcript (fst (handleSendMessage p c transcribedText now s)) = []
         \<and> liveTranscript (fst (handleSendMessage p c transcribedText now s)) = []"
  using assms trim_hd [OF assms] trim_last [OF assms]
  by (simp add: handleSendMessage_def Let_def)

theorem handleSendMessage_appends_trimmed_witness:
  "trim (textToSend (initialState\<lparr>userInput := lit '' hi ''\<rparr>) None) \<noteq> []
   \<and> messages (fst (handleSendMessage exampleProps (initialState\<lparr>userInput := lit '' hi ''\<rparr>)
                       None 5 (initialState\<lparr>userInput := lit '' hi ''\<rparr>)))
      = [\<lparr>msg_id = lit ''5'', content = lit ''hi'', role = User, timestamp = 5\<rparr>]"
proof -
  have t: "trim (textToSend (initialState\<lparr>userInput := lit '' hi ''\<rparr>) None) = lit ''hi''"
    by (simp add: textToSend_def initialState_def lit_def trim_def isWhiteSpace_def)
  have h: "trim (textToSend (initialState\<lparr>userInput := lit '' hi ''\<rparr>) None) \<noteq> []"
    unfolding t by (simp add: lit_def)
  show ?thesis
    using h handleSendMessage_appends_trimmed
              [OF h, of exampleProps 5 "initialState\<lparr>userInput := lit '' hi ''\<rparr>"]
    by (simp add: t toString_digit) (simp add: initialState_def lit_def)
qed


section \<open>The window of history sent for a reply\<close>

text \<open>
  Claim C7. A request for a reply carries at most the 15 most recent messages of the
  history. \<open>sendToAI\<close> posts \<open>userMessages.slice(-15)\<close>: at most 15 messages, and they
  are the end of the list it was given. \<open>handleSendMessage\<close> hands the whole history to
  \<open>generateInterviewResponse\<close>, whose request, as the specification describes it, is
  again the last 15 entries of what it is handed.
\<close>

theorem reply_request_window:
  "sendToAI p userMessages
     = [FetchAi (slice_from_end 15 userMessages) (sessionType p) (topic p) (notes_prop p)
          (details p)]
   \<and> length (slice_from_end 15 userMessages) \<le> 15
   \<and> (\<exists>older. userMessages = older @ slice_from_end 15 userMessages)
   \<and> length (generateInterviewResponse_request history) \<le> 15
   \<and> (\<exists>older. history = older @ generateInterviewResponse_request history)"
  using slice_from_end_suffix [of userMessages 15] slice_from_end_suffix [of history 15]
  by (simp add: sendToAI_def generateInterviewResponse_request_def slice_from_end_length)


section \<open>Connecting without a microphone\<close>

text \<open>
  Claim C9. When the microphone cannot be acquired (there is no \<open>navigator.mediaDevices\<close>,
  \<open>getUserMedia\<close> is rejected, or the recorder cannot be built) the handler runs its
  \<open>catch\<close> block: the only change of the state is that \<open>isConnected\<close> becomes true, so
  the session is connected with no recorder and with the listening, thinking and speaking
  flags as they were, and \<open>startInterview\<close> is scheduled as on the successful path. Run
  from that state, \<open>startInterview\<close> adds the introduction to the conversation.
\<close>

theorem setupAudioRecording_microphone_failure:
  "setupAudioRecording False s = setupAudioRecording_catch s
   \<and> setupAudioRecording_rejected s = setupAudioRecording_catch s
   \<and> setupAudioRecording_resolved False s = setupAudioRecording_catch s
   \<and> fst (setupAudioRecording_catch s) = s\<lparr>isConnected := True\<rparr>
   \<and> SetTimeout StartInterview 1000 \<in> set (snd (setupAudioRecording_catch s))
   \<and> messages (fst (startInterview p now (fst (setupAudioRecording_catch s))))
       = messages s @ [\<lparr>msg_id = toString now, content = introMessage p, role = Assistant,
                        timestamp = now\<rparr>]
   \<and> isConnected (fst (startInterview p now (fst (setupAudioRecording_catch s))))
   \<and> audioRecorder (fst (startInterview p now (fst (setupAudioRecording_catch s))))
       = audioRecorder s"
  by (simp add: setupAudioRecording_def setupAudioRecording_rejected_def
        setupAudioRecording_resolved_def setupAudioRecording_catch_def startInterview_def)

theorem setupAudioRecording_microphone_failure_witness:
  "fst (setupAudioRecording False initialState) = connectedState
   \<and> messages (fst (startInterview exampleProps 5 (fst (setupAudioRecording False initialState))))
       = [\<lparr>msg_id = lit ''5'',
           content = lit ''Welcome to your Q&A session on Graphs. I'll be testing your knowledge with a series of questions. Let's see how much you know about Graphs!'',
           role = Assistant, timestamp = 5\<rparr>]"
  using setupAudioRecording_microphone_failure [of initialState exampleProps 5]
  by (simp add: connectedState_def initialState_def toString_digit introMessage_def
        exampleProps_def lit_def setupAudioRecording_def setupAudioRecording_catch_def
        startInterview_def)


section \<open>Ending the session\<close>

text \<open>
  Claim C5. When the feedback request fails, the handler builds the fallback feedback from
  the session type and the topic, saves it when the storage holds an id, and calls the
  caller's \<open>onEnd\<close> with it, once. The summary of the fallback feedback is not empty and
  its lists of strengths and of improvements have at least one entry each (they have three).
\<close>

theorem handleEndInterview_rejected_fallback:
  "handleEndInterview_rejected p s
     = (s\<lparr>isThinking := False, isEndingInterview := False\<rparr>,
        saveFeedback (sessionStorage s) (fallbackFeedback p) @ [OnEnd (fallbackFeedback p)])
   \<and> onEndCalls (snd (handleEndInterview_rejected p s)) = 1
   \<and> summary (fallbackFeedback p) \<noteq> []
   \<and> 1 \<le> length (strengths (fallbackFeedback p))
   \<and> 1 \<le> length (improvements (fallbackFeedback p))"
  by (simp add: handleEndInterview_rejected_def handleEndInterview_finish_def onEndCalls_def
        saveFeedback_def fallbackFeedback_def lit_def split: option.split)

theorem handleEndInterview_rejected_fallback_witness:
  "snd (handleEndInterview_rejected exampleProps connectedState)
     = [OnEnd \<lparr>summary = lit ''You participated in this qa about Graphs.'',
               strengths = [lit ''Engaged in the qa'', lit ''Provided responses to questions'',
                            lit ''Completed the session''],
               improvements = [lit ''Technical issues prevented detailed feedback'',
                               lit ''Try another session with a different connection'',
                               lit ''Consider trying a different topic'']\<rparr>]"
  using handleEndInterview_rejected_fallback [of exampleProps connectedState]
  by (simp add: saveFeedback_def storedId_def connectedState_def initialState_def
        fallbackFeedback_def exampleProps_def lit_def)


section \<open>Which text is submitted when a capture stops\<close>

text \<open>
  Claim C3, as the code has it. \<open>handleSendMessage\<close> sends the live transcript of its
  render whenever that is not empty, also when a recorded transcription is passed to it;
  with no live transcript it sends the recorded transcription when one is passed and not
  empty, and the typed input otherwise. When a capture stops, the listener of the recorder
  calls \<open>handleSendMessage\<close> only for a recorded transcription that is not empty; for an
  empty one it submits nothing and clears the typed input.
\<close>

theorem capture_stop_text:
  "(liveTranscript c \<noteq> [] \<longrightarrow> textToSend c transcribedText = liveTranscript c)
   \<and> (liveTranscript c = [] \<and> transcription \<noteq> []
        \<longrightarrow> textToSend c (Some transcription) = transcription)
   \<and> (liveTranscript c = []
        \<longrightarrow> textToSend c None = userInput c \<and> textToSend c (Some []) = userInput c)
   \<and> (transcription \<noteq> []
        \<longrightarrow> handleRecordingStop_resolved p c transcription now s
            = handleSendMessage p c (Some transcription) now
                (s\<lparr>isLoading := False, userInput := transcription,
                   transcript := transcription\<rparr>))
   \<and> handleRecordingStop_resolved p c [] now s = (s\<lparr>isLoading := False, userInput := []\<rparr>, [])"
  by (simp add: textToSend_def handleRecordingStop_resolved_def)

theorem capture_stop_text_witness:
  "textToSend (typedState\<lparr>liveTranscript := lit ''live words''\<rparr>) (Some (lit ''recorded words''))
     = lit ''live words''
   \<and> textToSend typedState (Some (lit ''recorded words'')) = lit ''recorded words''
   \<and> textToSend typedState None = lit ''typed answer''"
  using capture_stop_text [of "typedState\<lparr>liveTranscript := lit ''live words''\<rparr>"
          "Some (lit ''recorded words'')" "lit ''recorded words''" exampleProps 9 typedState]
        capture_stop_text [of typedState None "lit ''recorded words''" exampleProps 9 typedState]
  by (simp add: typedState_def connectedState_def initialState_def lit_def)

text \<open>
  The claim as it was stated fails in its second half. A capture stops with no live
  transcript and an empty recorded transcription while the text box holds
  \<open>typed answer\<close>: the typed text is not submitted, it is erased, and no Message is added.
\<close>

theorem capture_stop_drops_typed_text:
  "liveTranscript typedState = []
   \<and> userInput typedState = lit ''typed answer''
   \<and> handleRecordingStop_resolved exampleProps typedState [] 9 typedState
       = (typedState\<lparr>userInput := []\<rparr>, [])
   \<and> messages (fst (handleRecordingStop_resolved exampleProps typedState [] 9 typedState)) = []"
  by (simp add: handleRecordingStop_resolved_def typedState_def connectedState_def
        initialState_def)

text \<open>
  The listener is registered by \<open>setupAudioRecording\<close>, so the render it reads is the one
  in which the connect button was pressed. With a render that has no live transcript as
  \<open>c\<close> and a current state whose live transcript is not empty, the recorded
  transcription is the text that is sent.
\<close>

lemma listener_of_earlier_render:
  "content (last (messages (fst (handleRecordingStop_resolved exampleProps initialState
                                   (lit ''recorded words'') 9
                                   (typedState\<lparr>liveTranscript := lit ''live words''\<rparr>)))))
     = lit ''recorded words''"
proof -
  have t: "trim (lit ''recorded words'') = lit ''recorded words''"
    by (simp add: lit_def trim_def isWhiteSpace_def)
  have ne: "lit ''recorded words'' \<noteq> []" by (simp add: lit_def)
  show ?thesis
    using ne
    by (simp add: handleRecordingStop_resolved_def handleSendMessage_def textToSend_def
          initialState_def t Let_def)
qed


section \<open>While the assistant speaks\<close>

text \<open>
  Claim C2, as the code has it. While \<open>isSpeaking\<close> holds, \<open>startListening\<close> leaves the
  state as it is and starts neither the recorder nor the recognizer, and the text area and
  the microphone button are rendered disabled. \<open>handleSendMessage\<close> does not look at
  \<open>isSpeaking\<close>: it does the same whether the flag is set or not.
\<close>

theorem speaking_blocks_capture:
  assumes "isSpeaking c"
  shows "fst (startListening c s) = s
         \<and> RecorderStart \<notin> set (snd (startListening c s))
         \<and> RecognitionStart \<notin> set (snd (startListening c s))
         \<and> textarea_disabled c
         \<and> mic_button_disabled c
         \<and> handleSendMessage p c transcribedText now s
             = handleSendMessage p (c\<lparr>isSpeaking := False\<rparr>) transcribedText now s"
proof -
  have "handleSendMessage p c transcribedText now s
          = handleSendMessage p (c\<lparr>isSpeaking := False\<rparr>) transcribedText now s"
    by (simp add: handleSendMessage_def textToSend_def Let_def split: option.split)
  with assms show ?thesis
    by (simp add: startListening_def textarea_disabled_def mic_button_disabled_def)
qed

theorem speaking_blocks_capture_witness:
  "isSpeaking (speakingState\<lparr>audioRecorder := True\<rparr>)
   \<and> startListening (speakingState\<lparr>audioRecorder := True\<rparr>) (speakingState\<lparr>audioRecorder := True\<rparr>)
       = (speakingState\<lparr>audioRecorder := True\<rparr>, [])
   \<and> textarea_disabled (speakingState\<lparr>audioRecorder := True\<rparr>)"
proof -
  have h: "isSpeaking (speakingState\<lparr>audioRecorder := True\<rparr>)"
    by (simp add: speakingState_def)
  show ?thesis
    using h speaking_blocks_capture [OF h, of "speakingState\<lparr>audioRecorder := True\<rparr>"]
    by (simp add: startListening_def speakingState_def)
qed

text \<open>
  The claim as it was stated fails for the submit action. In a state where the assistant
  is speaking, \<open>handleSendMessage\<close> with the text \<open>hi\<close> adds a user Message and sets the
  thinking flag; so does the listener of the recorder when a transcription arrives.
\<close>

theorem submit_while_speaking_appends:
  "isSpeaking speakingState
   \<and> messages speakingState = []
   \<and> messages (fst (handleSendMessage exampleProps speakingState None 7 speakingState))
       = [\<lparr>msg_id = lit ''7'', content = lit ''hi'', role = User, timestamp = 7\<rparr>]
   \<and> isThinking (fst (handleSendMessage exampleProps speakingState None 7 speakingState))
   \<and> messages (fst (handleRecordingStop_resolved exampleProps speakingState (lit ''hello'') 7
                       speakingState))
       = [\<lparr>msg_id = lit ''7'', content = lit ''hello'', role = User, timestamp = 7\<rparr>]"
proof -
  have l: "liveTranscript speakingState = []" "userInput speakingState = lit ''hi''"
    "messages speakingState = []" "isSpeaking speakingState"
    by (simp_all add: speakingState_def connectedState_def initialState_def)
  have t: "trim (lit ''hi'') = lit ''hi''" "trim (lit ''hello'') = lit ''hello''"
    by (simp_all add: lit_def trim_def isWhiteSpace_def)
  have ne: "lit ''hi'' \<noteq> []" "lit ''hello'' \<noteq> []" by (simp_all add: lit_def)
  show ?thesis
    using ne
    by (simp add: handleSendMessage_def handleRecordingStop_resolved_def textToSend_def l t
          Let_def toString_digit)
       (simp add: lit_def)
qed


section \<open>A failed reply\<close>

text \<open>
  Claim C4, as the code has it. When the reply cannot be obtained the handler adds the
  fixed apology as an assistant Message and clears the thinking and the loading flags, so
  the component does not stay waiting for the reply. It leaves \<open>isSpeaking\<close> as it was
  and issues no effect: the apology is not spoken, the component goes back to idle
  directly.
\<close>

theorem handleSendMessage_rejected_recovers:
  "handleSendMessage_rejected now s
     = (s\<lparr>messages := messages s
                @ [\<lparr>msg_id = toString now,
                    content = lit ''I'm sorry, I'm having trouble responding right now. Let's continue our conversation.'',
                    role = Assistant, timestamp = now\<rparr>],
            isThinking := False, isLoading := False\<rparr>, [])
   \<and> isSpeaking (fst (handleSendMessage_rejected now s)) = isSpeaking s
   \<and> \<not> isThinking (fst (handleSendMessage_rejected now s))
   \<and> \<not> isLoading (fst (handleSendMessage_rejected now s))"
  by (simp add: handleSendMessage_rejected_def)

text \<open>
  The claim as it was stated has the component pass through the speaking state. From a
  state that waits for a reply, the failure leaves it not speaking, not thinking and not
  loading, with nothing scheduled; a reply that arrives schedules its narration.
\<close>

theorem reply_failure_skips_speaking:
  "isThinking awaitingState \<and> isLoading awaitingState
   \<and> \<not> isSpeaking (fst (handleSendMessage_rejected 9 awaitingState))
   \<and> \<not> isThinking (fst (handleSendMessage_rejected 9 awaitingState))
   \<and> \<not> isLoading (fst (handleSendMessage_rejected 9 awaitingState))
   \<and> snd (handleSendMessage_rejected 9 awaitingState) = []
   \<and> snd (handleSendMessage_resolved None (lit ''ok'') 9 awaitingState)
       = [SetTimeout (PlayResponse (lit ''ok'')) 500]"
  by (simp add: handleSendMessage_rejected_def handleSendMessage_resolved_def saveMessage_def
        storedId_def awaitingState_def connectedState_def initialState_def)


section \<open>Saving without an id of the server\<close>

lemma toString_example: "toString 1700000000000 = lit ''1700000000000''"
  by (simp add: toString_digit toString_more lit_def)

lemma localIdState_storage:
  "sessionStorage localIdState = Some (localSessionData exampleProps 1700000000000)"
  by (simp add: localIdState_def startInterview_resumed_def startInterview_def serverId_def)

text \<open>
  Claim C8, as the code has it. \<open>startInterview\<close> stores the session data with the id it
  made from the clock before it asks the server; when the server supplies no id, that
  entry stays. A save request is skipped exactly when the stored entry has no truthy id,
  so with the local entry the messages and the feedback are saved under the local id.
\<close>

theorem saves_use_stored_id:
  "(serverId out = None \<longrightarrow>
      sessionStorage (fst (startInterview_resumed p (localSessionData p now) out
                             (fst (startInterview p now s))))
        = Some (localSessionData p now))
   \<and> saveMessage (Some (localSessionData p now)) text r = [FetchSaveMessage (toString now) text r]
   \<and> saveFeedback (Some (localSessionData p now)) fb = [FetchSaveFeedback (toString now) fb]
   \<and> (saveMessage sessionData text r = []) = (storedId sessionData = None)
   \<and> (saveFeedback sessionData fb = []) = (storedId sessionData = None)
   \<and> storedId None = None"
  by (simp add: startInterview_resumed_def startInterview_def saveMessage_def saveFeedback_def
        storedId_def localSessionData_def toString_not_Nil split: option.split)

theorem saves_use_stored_id_witness:
  "serverId CreateFailed = None
   \<and> sessionStorage localIdState = Some (localSessionData exampleProps 1700000000000)
   \<and> saveMessage (sessionStorage localIdState) (lit ''hi'') User
       = [FetchSaveMessage (lit ''1700000000000'') (lit ''hi'') User]"
  using saves_use_stored_id [of CreateFailed exampleProps 1700000000000 connectedState
          "lit ''hi''" User]
  by (simp add: localIdState_def serverId_def toString_example)

text \<open>
  The claim as it was stated fails. The create-interview request fails, so no id of the
  server ever arrives; the next user message is still sent to the save-message route and
  the fallback feedback to the save-feedback route, both under the local id.
\<close>

theorem save_sent_without_server_id:
  "serverId CreateFailed = None
   \<and> hd (snd (handleSendMessage exampleProps (localIdState\<lparr>userInput := lit ''hi''\<rparr>) None
                1700000005000 (localIdState\<lparr>userInput := lit ''hi''\<rparr>)))
       = FetchSaveMessage (lit ''1700000000000'') (lit ''hi'') User
   \<and> hd (snd (handleEndInterview_rejected exampleProps localIdState))
       = FetchSaveFeedback (lit ''1700000000000'') (fallbackFeedback exampleProps)"
proof -
  have l: "liveTranscript localIdState = []"
    by (simp add: localIdState_def startInterview_resumed_def startInterview_def serverId_def
          connectedState_def initialState_def)
  have t: "trim (textToSend (localIdState\<lparr>userInput := lit ''hi''\<rparr>) None) = lit ''hi''"
    by (simp add: textToSend_def l) (simp add: lit_def trim_def isWhiteSpace_def)
  have ne: "lit ''hi'' \<noteq> []" by (simp add: lit_def)
  have i: "sd_id (localSessionData exampleProps 1700000000000) = lit ''1700000000000''"
    by (simp add: localSessionData_def toString_example)
  have ine: "lit ''1700000000000'' \<noteq> []" by (simp add: lit_def)
  show ?thesis
    using ne ine
    by (simp add: handleSendMessage_def t Let_def saveMessage_def storedId_def
          localIdState_storage i handleEndInterview_rejected_def handleEndInterview_finish_def
          saveFeedback_def serverId_def)
qed


section \<open>Repeated end requests\<close>

lemma handleEndInterview_reentry:
  "isEndingInterview c \<Longrightarrow> handleEndInterview p synth c s = (s, [])"
  by (simp add: handleEndInterview_def)

text \<open>
  In a browser without \<open>window.speechSynthesis\<close> the handler throws right after it has
  set the ending flag: no feedback is requested, \<open>onEnd\<close> is not called and the flag stays.
\<close>

lemma handleEndInterview_no_synthesis:
  "\<not> isEndingInterview c \<Longrightarrow>
     handleEndInterview p None c s = (s\<lparr>isEndingInterview := True\<rparr>, [Throw (lit ''TypeError'')])"
  by (simp add: handleEndInterview_def)

lemma end_step_unanswerable:
  "answer \<noteq> EndClick \<Longrightarrow> end_step p synth (s, 0, es) answer = (s, 0, es)"
  by (cases answer) simp_all

lemma end_step_click_ending:
  "isEndingInterview s \<Longrightarrow> end_step p synth (s, k, es) EndClick = (s, k, es)"
  by (simp add: handleEndInterview_reentry)

lemma end_clicks_ending:
  "isEndingInterview s \<Longrightarrow>
     foldl (end_step p synth) (s, k, es) (replicate n EndClick) = (s, k, es)"
  by (induction n) (simp_all add: end_step_click_ending del: end_step.simps)

text \<open>
  Without \<open>window.speechSynthesis\<close> a run of end requests and an answer issues no
  feedback request and never calls \<open>onEnd\<close>; the ending flag stays set.
\<close>

lemma end_run_no_synthesis:
  assumes "\<not> isEndingInterview s" and "answer \<noteq> EndClick"
  shows "end_run p None (EndClick # replicate n EndClick @ [answer]) s
           = (s\<lparr>isEndingInterview := True\<rparr>, 0, [Throw (lit ''TypeError'')])"
proof -
  have first: "end_step p None (s, 0, []) EndClick
                 = (s\<lparr>isEndingInterview := True\<rparr>, 0, [Throw (lit ''TypeError'')])"
    using assms(1) by (simp add: handleEndInterview_def)
  have ending: "isEndingInterview (s\<lparr>isEndingInterview := True\<rparr>)" by simp
  show ?thesis
    by (simp add: end_run_def first end_clicks_ending [OF ending]
          end_step_unanswerable [OF assms(2)] del: end_step.simps)
qed

lemma end_step_first_click:
  assumes "\<not> isEndingInterview s"
  shows "\<exists>s' es. end_step p (Some speaking) (s, 0, []) EndClick = (s', Suc 0, es)
           \<and> isEndingInterview s' \<and> onEndCalls es = 0 \<and> feedbackRequests es = 1"
  using assms
  by (simp add: handleEndInterview_def Let_def onEndCalls_def feedbackRequests_def)

lemma end_step_answer:
  assumes "answer \<noteq> EndClick"
  shows "\<exists>s'' es'. end_step p synth (s', Suc 0, es) answer = (s'', 0, es @ es')
           \<and> \<not> isEndingInterview s'' \<and> onEndCalls es' = 1 \<and> feedbackRequests es' = 0"
  using assms
  by (cases answer)
     (simp_all add: handleEndInterview_resolved_def handleEndInterview_rejected_def
        handleEndInterview_finish_def onEndCalls_def feedbackRequests_def saveFeedback_def
        split: option.split)

text \<open>
  Claim C1, as the code has it. In a browser that has \<open>window.speechSynthesis\<close>, take an
  end request made while none is in progress, then any number of further end requests
  before the feedback request is answered, then the answer (feedback or failure). The
  further requests change nothing: the state, the effects issued and the number of
  pending feedback requests are those after the first request alone, and that number is
  one. Over the whole run exactly one feedback request is issued, \<open>onEnd\<close> is called
  exactly once, no feedback request is left pending, and the ending flag is clear again at
  the end, so that the next end request is accepted. In any browser, the end handler run
  from a render whose ending flag is set changes no state and issues no effect.
\<close>

theorem end_run_single_onEnd:
  assumes "\<not> isEndingInterview s" and "answer \<noteq> EndClick"
  shows "end_run p (Some speaking) (EndClick # replicate n EndClick) s
           = end_run p (Some speaking) [EndClick] s
         \<and> fst (snd (end_run p (Some speaking) [EndClick] s)) = 1
         \<and> feedbackRequests (snd (snd (end_run p (Some speaking)
                                          (EndClick # replicate n EndClick @ [answer]) s))) = 1
         \<and> onEndCalls (snd (snd (end_run p (Some speaking)
                                    (EndClick # replicate n EndClick @ [answer]) s))) = 1
         \<and> fst (snd (end_run p (Some speaking)
                        (EndClick # replicate n EndClick @ [answer]) s)) = 0
         \<and> \<not> isEndingInterview (fst (end_run p (Some speaking)
                                        (EndClick # replicate n EndClick @ [answer]) s))
         \<and> (isEndingInterview c \<longrightarrow> handleEndInterview p synth c s0 = (s0, []))"
proof -
  obtain s' es where first: "end_step p (Some speaking) (s, 0, []) EndClick = (s', Suc 0, es)"
    and ending: "isEndingInterview s'" and none: "onEndCalls es = 0"
    and request: "feedbackRequests es = 1"
    using end_step_first_click [OF assms(1)] by blast
  obtain s'' es' where
    answered: "end_step p (Some speaking) (s', Suc 0, es) answer = (s'', 0, es @ es')"
    and cleared: "\<not> isEndingInterview s''" and one: "onEndCalls es' = 1"
    and no_request: "feedbackRequests es' = 0"
    using end_step_answer [OF assms(2)] by blast
  have single: "end_run p (Some speaking) [EndClick] s = (s', Suc 0, es)"
    by (simp add: end_run_def first del: end_step.simps)
  have clicks: "end_run p (Some speaking) (EndClick # replicate n EndClick) s = (s', Suc 0, es)"
    by (simp add: end_run_def first end_clicks_ending [OF ending] del: end_step.simps)
  have whole: "end_run p (Some speaking) (EndClick # replicate n EndClick @ [answer]) s
                 = (s'', 0, es @ es')"
    by (simp add: end_run_def first end_clicks_ending [OF ending] answered
          del: end_step.simps)
  have calls: "onEndCalls (es @ es') = 1" "feedbackRequests (es @ es') = 1"
    using none one request no_request by (simp_all add: onEndCalls_def feedbackRequests_def)
  show ?thesis
    by (simp add: single clicks whole calls cleared handleEndInterview_reentry)
qed

theorem end_run_single_onEnd_witness:
  "\<not> isEndingInterview connectedState
   \<and> end_run exampleProps (Some False) [EndClick, EndClick, EndClick] connectedState
       = end_run exampleProps (Some False) [EndClick] connectedState
   \<and> feedbackRequests (snd (snd (end_run exampleProps (Some False)
                     [EndClick, EndClick, EndClick, FeedbackRejected] connectedState))) = 1
   \<and> onEndCalls (snd (snd (end_run exampleProps (Some False)
                     [EndClick, EndClick, EndClick, FeedbackRejected] connectedState))) = 1
   \<and> fst (snd (end_run exampleProps (Some False)
                     [EndClick, EndClick, EndClick, FeedbackRejected] connectedState)) = 0"
proof -
  have h: "\<not> isEndingInterview connectedState"
    by (simp add: connectedState_def initialState_def)
  have a: "FeedbackRejected \<noteq> EndClick" by simp
  show ?thesis
    using h end_run_single_onEnd [OF h a, of exampleProps False "Suc (Suc 0)"] by simp
qed

text \<open>
  The claim as it was stated fails when an end request follows the completion of an
  earlier one: the flag has been cleared, the handler runs again and \<open>onEnd\<close> is called a
  second time.
\<close>

theorem end_after_completion_calls_onEnd_again:
  "onEndCalls (snd (snd (end_run exampleProps (Some False)
                           [EndClick, FeedbackRejected, EndClick, FeedbackRejected]
                           connectedState))) = 2"
  by (simp add: end_run_def handleEndInterview_def handleEndInterview_rejected_def
        handleEndInterview_finish_def saveFeedback_def storedId_def onEndCalls_def
        connectedState_def initialState_def Let_def)

end
